theory Spec2Isabelle
  imports Main "HOL-Library.Sublist" "HOL-Library.Monad_Syntax"
begin

section \<open>Python strings\<close>

text \<open>
  A Python \<^verbatim>\<open>str\<close> is a sequence of Unicode code points: \<^verbatim>\<open>len\<close>, slicing,
  \<^verbatim>\<open>strip\<close> and \<^verbatim>\<open>re\<close> all count code points. It is modelled as a list of
  code points; \<open>str\<close> reads an ASCII literal.
\<close>

type_synonym pystr = "nat list"

definition str :: "string \<Rightarrow> pystr" where
  "str s = map of_char s"

text \<open>
  \<^verbatim>\<open>str.isspace\<close> of one code point, which is also what \<^verbatim>\<open>\s\<close> matches in a
  \<^verbatim>\<open>str\<close> pattern: the code points Unicode classes as white space (bidirectional
  type WS, B or S, or category Zs).
\<close>

definition isspace :: "nat \<Rightarrow> bool" where
  "isspace c \<longleftrightarrow>
     (9 \<le> c \<and> c \<le> 13) \<or> (28 \<le> c \<and> c \<le> 32) \<or> c = 133 \<or> c = 160 \<or> c = 5760 \<or>
     (8192 \<le> c \<and> c \<le> 8202) \<or> c = 8232 \<or> c = 8233 \<or> c = 8239 \<or> c = 8287 \<or> c = 12288"

text \<open>\<^verbatim>\<open>s.strip()\<close>: white space removed at both ends.\<close>

definition strip :: "pystr \<Rightarrow> pystr" where
  "strip s = rev (dropWhile isspace (rev (dropWhile isspace s)))"

section \<open>HTTP errors\<close>

text \<open>\<^verbatim>\<open>raise HTTPException(status_code=..., detail=...)\<close> is the left summand of a result.\<close>

datatype http_error = HTTPException (status_code: nat) (detail: string)

section \<open>Transcript extractor (\<^verbatim>\<open>generate_emr\<close>)\<close>

record ConversationInput =
  transcript :: pystr
  style :: "pystr option"

text \<open>
  The patterns of \<^verbatim>\<open>generate_emr\<close> all have the shape
  \<^verbatim>\<open>label[:\-]\s*(.*)\<close>, compiled with \<^verbatim>\<open>re.IGNORECASE | re.DOTALL\<close>, the label a
  word of lower-case ASCII letters and spaces.

  \<open>ci_match p c\<close>: the pattern's literal character \<open>p\<close> matches the character \<open>c\<close>
  under \<^verbatim>\<open>re.IGNORECASE\<close>. A character without case (the space) matches itself only; a
  letter matches the characters whose lower case it is, and for \<^verbatim>\<open>i\<close> and \<^verbatim>\<open>s\<close> also
  the dotless i (U+0131) and the long s (U+017F); the dotted capital I (U+0130) has lower
  case \<^verbatim>\<open>i\<close>, and the Kelvin sign (U+212A) lower case \<^verbatim>\<open>k\<close>.
\<close>

definition ci_match :: "nat \<Rightarrow> nat \<Rightarrow> bool" where
  "ci_match p c \<longleftrightarrow>
     c = p \<or> (97 \<le> p \<and> p \<le> 122 \<and> c + 32 = p) \<or>
     (p = 105 \<and> (c = 304 \<or> c = 305)) \<or> (p = 115 \<and> c = 383) \<or> (p = 107 \<and> c = 8490)"

text \<open>The literal label at the start of the subject: what follows it, if it matches.\<close>

fun match_label :: "pystr \<Rightarrow> pystr \<Rightarrow> pystr option" where
  "match_label [] s = Some s"
| "match_label (p # ps) [] = None"
| "match_label (p # ps) (c # cs) = (if ci_match p c then match_label ps cs else None)"

text \<open>
  The whole pattern at the start of the subject, giving group 1. After the label comes one
  of \<^verbatim>\<open>:\<close> and \<^verbatim>\<open>-\<close>; \<^verbatim>\<open>\s*\<close> is greedy and takes all the white space that follows;
  \<^verbatim>\<open>(.*)\<close> under \<^verbatim>\<open>re.DOTALL\<close> takes every character that remains, line breaks
  too, so the match never backtracks and group 1 runs to the end of the subject.
\<close>

definition match_here :: "pystr \<Rightarrow> pystr \<Rightarrow> pystr option" where
  "match_here lbl s =
     (case match_label lbl s of
        None \<Rightarrow> None
      | Some [] \<Rightarrow> None
      | Some (d # ds) \<Rightarrow> if d = 58 \<or> d = 45 then Some (dropWhile isspace ds) else None)"

text \<open>\<^verbatim>\<open>re.search\<close>: the match at the leftmost position that has one.\<close>

fun re_search :: "pystr \<Rightarrow> pystr \<Rightarrow> pystr option" where
  "re_search lbl [] = match_here lbl []"
| "re_search lbl (c # cs) =
     (case match_here lbl (c # cs) of Some g \<Rightarrow> Some g | None \<Rightarrow> re_search lbl cs)"

text \<open>The inner function \<^verbatim>\<open>find\<close>, for the pattern of label \<open>lbl\<close>, on the text.\<close>

definition find_section :: "pystr \<Rightarrow> pystr \<Rightarrow> pystr option" where
  "find_section text lbl = (case re_search lbl text of Some g \<Rightarrow> Some (strip g) | None \<Rightarrow> None)"

text \<open>Truth of an optional string: \<^verbatim>\<open>None\<close> and \<^verbatim>\<open>""\<close> are false.\<close>

fun truthy :: "pystr option \<Rightarrow> bool" where
  "truthy None = False"
| "truthy (Some s) = (s \<noteq> [])"

text \<open>\<^verbatim>\<open>a or b\<close>.\<close>

definition py_or :: "pystr option \<Rightarrow> pystr option \<Rightarrow> pystr option" where
  "py_or a b = (if truthy a then a else b)"

text \<open>
  The dictionary comprehension \<^verbatim>\<open>{k: v for k, v in emr.items() if v}\<close>, on the items
  in their order.
\<close>

fun clean_none :: "(string \<times> pystr option) list \<Rightarrow> (string \<times> pystr) list" where
  "clean_none [] = []"
| "clean_none ((k, None) # kvs) = clean_none kvs"
| "clean_none ((k, Some v) # kvs) = (if v \<noteq> [] then (k, v) # clean_none kvs else clean_none kvs)"

definition generate_emr :: "ConversationInput \<Rightarrow> http_error + (string \<times> pystr) list" where
  "generate_emr conv =
     (let text = strip (transcript conv) in
      if text = [] then Inl (HTTPException 400 ''Transcript is empty'')
      else
        Inr (clean_none
          [(''chief_complaint'',
              py_or (find_section text (str ''chief complaint'')) (find_section text (str ''cc''))),
           (''history_of_present_illness'', find_section text (str ''hpi'')),
           (''review_of_systems'', find_section text (str ''ros'')),
           (''physical_exam'', find_section text (str ''exam'')),
           (''assessment'', find_section text (str ''assessment'')),
           (''plan'', find_section text (str ''plan'')),
           (''summary'', Some (take 500 text))]))"

subsection \<open>The sections by position\<close>

text \<open>
  A second description of what \<^verbatim>\<open>find\<close> returns, by positions in the text rather than
  by running the pattern: \<open>label_at lbl text i\<close> says that the label, in any case,
  stands at position \<open>i\<close> with a colon or a dash right after it; \<open>first_label\<close> is the
  leftmost such position; \<open>section_text\<close> is the text after that label and separator
  up to the end of the text, trimmed, and nothing when that is empty.
\<close>

definition label_at :: "pystr \<Rightarrow> pystr \<Rightarrow> nat \<Rightarrow> bool" where
  "label_at lbl text i \<longleftrightarrow>
     i + length lbl < length text \<and>
     list_all2 ci_match lbl (take (length lbl) (drop i text)) \<and>
     (text ! (i + length lbl) = 58 \<or> text ! (i + length lbl) = 45)"

definition first_label :: "pystr \<Rightarrow> pystr \<Rightarrow> nat option" where
  "first_label lbl text = List.find (label_at lbl text) [0..<length text]"

definition section_text :: "pystr \<Rightarrow> pystr \<Rightarrow> pystr option" where
  "section_text lbl text =
     (case first_label lbl text of
        None \<Rightarrow> None
      | Some i \<Rightarrow>
          (let v = strip (drop (i + length lbl + 1) text) in if v = [] then None else Some v))"

text \<open>What the cleaning of the dictionary keeps of a value.\<close>

definition keep :: "pystr option \<Rightarrow> pystr option" where
  "keep a = (case a of None \<Rightarrow> None | Some v \<Rightarrow> if v = [] then None else Some v)"

subsection \<open>The example transcripts\<close>

definition cough_rest :: ConversationInput where
  "cough_rest =
     \<lparr>transcript = str ''Chief Complaint: cough'' @ [10] @ str ''Plan: rest'',
      style = Some (str ''concise'')\<rparr>"

definition plan_rest :: ConversationInput where
  "plan_rest = \<lparr>transcript = str ''Plan: rest'', style = Some (str ''concise'')\<rparr>"

section \<open>Prescription preview (\<^verbatim>\<open>prescription_preview\<close>)\<close>

text \<open>
  A medication is a \<^verbatim>\<open>Dict[str, Any]\<close> decoded from JSON: a value is null, a
  boolean, an integer, a string, or another value (a number with a fraction, an array, an
  object). The handlers test such a value for truth, ask whether it is a string, and
  format it; \<open>JOther\<close> stands for a value of the last kind by what these operations
  give: whether it is true (a number other than zero, a container that is not empty), and
  the text that formatting gives for it.
\<close>

datatype json = JNull | JBool bool | JInt int | JStr pystr | JOther bool pystr

text \<open>Truth of a value, as \<^verbatim>\<open>if x\<close> tests it.\<close>

fun py_truthy :: "json \<Rightarrow> bool" where
  "py_truthy JNull = False"
| "py_truthy (JBool b) = b"
| "py_truthy (JInt i) = (i \<noteq> 0)"
| "py_truthy (JStr s) = (s \<noteq> [])"
| "py_truthy (JOther b t) = b"

text \<open>The decimal digits of a natural number.\<close>

function str_nat :: "nat \<Rightarrow> pystr" where
  "str_nat n = (if n < 10 then [48 + n] else str_nat (n div 10) @ [48 + n mod 10])"
  by pat_completeness auto
termination
  by (relation "measure id") auto

declare str_nat.simps [simp del]

text \<open>What an f-string's \<^verbatim>\<open>{x}\<close> inserts for a value.\<close>

fun py_format :: "json \<Rightarrow> pystr" where
  "py_format JNull = str ''None''"
| "py_format (JBool b) = (if b then str ''True'' else str ''False'')"
| "py_format (JInt i) = (if i < 0 then 45 # str_nat (nat (- i)) else str_nat (nat i))"
| "py_format (JStr s) = s"
| "py_format (JOther b t) = t"

text \<open>
  An exception that no handler catches. \<^verbatim>\<open>sep.join(xs)\<close> raises \<^verbatim>\<open>TypeError\<close> when an
  item of \<open>xs\<close> is not a string.
\<close>

datatype py_exception = TypeError

fun join :: "pystr \<Rightarrow> pystr list \<Rightarrow> pystr" where
  "join sep [] = []"
| "join sep [x] = x"
| "join sep (x # y # ys) = x @ sep @ join sep (y # ys)"

fun str_items :: "json list \<Rightarrow> py_exception + pystr list" where
  "str_items [] = Inr []"
| "str_items (JStr s # xs) = (case str_items xs of Inl e \<Rightarrow> Inl e | Inr ss \<Rightarrow> Inr (s # ss))"
| "str_items (_ # xs) = Inl TypeError"

definition py_join :: "pystr \<Rightarrow> json list \<Rightarrow> py_exception + pystr" where
  "py_join sep xs = (case str_items xs of Inl e \<Rightarrow> Inl e | Inr ss \<Rightarrow> Inr (join sep ss))"

text \<open>\<^verbatim>\<open>m.get(k, d)\<close>.\<close>

definition dict_get :: "(pystr \<rightharpoonup> json) \<Rightarrow> pystr \<Rightarrow> json \<Rightarrow> json" where
  "dict_get m k d = (case m k of None \<Rightarrow> d | Some v \<Rightarrow> v)"

record PrescriptionInput =
  medications :: "(pystr \<rightharpoonup> json) list"
  "notes" :: "pystr option"

record PreviewResponse =
  preview :: pystr
  count :: nat

text \<open>
  The body of the loop, for one medication. The separator before the note is a space, an
  em dash (U+2014) and a space.
\<close>

definition medication_line :: "(pystr \<rightharpoonup> json) \<Rightarrow> py_exception + pystr" where
  "medication_line m =
     (let name = dict_get m (str ''name'') (JStr (str ''Medicine''));
          dose = dict_get m (str ''dose'') (JStr []);
          route = dict_get m (str ''route'') (JStr []);
          freq = dict_get m (str ''frequency'') (JStr []);
          duration = dict_get m (str ''duration'') (JStr []);
          note = dict_get m (str ''notes'') (JStr [])
      in case py_join (str '', '') (filter py_truthy [name, dose, route, freq, duration]) of
           Inl e \<Rightarrow> Inl e
         | Inr line \<Rightarrow>
             Inr (if py_truthy note then line @ [32, 8212, 32] @ py_format note else line))"

text \<open>The loop over the medications: the first exception ends it.\<close>

fun preview_lines :: "(pystr \<rightharpoonup> json) list \<Rightarrow> py_exception + pystr list" where
  "preview_lines [] = Inr []"
| "preview_lines (m # ms) =
     (case medication_line m of
        Inl e \<Rightarrow> Inl e
      | Inr line \<Rightarrow>
          (case preview_lines ms of Inl e \<Rightarrow> Inl e | Inr lines \<Rightarrow> Inr (line # lines)))"

definition prescription_preview :: "PrescriptionInput \<Rightarrow> py_exception + PreviewResponse" where
  "prescription_preview payload =
     (case preview_lines (medications payload) of
        Inl e \<Rightarrow> Inl e
      | Inr lines \<Rightarrow> Inr \<lparr>preview = join [10] lines, count = length lines\<rparr>)"

subsection \<open>The lines by their text fields\<close>

text \<open>
  A second description of a medication's line, on the text of its fields. \<open>json_text\<close>
  is the text of a value, empty when the value is not a string; \<open>text_or_empty\<close> holds
  of a string and of a value that \<^verbatim>\<open>if x\<close> takes for false (null, false, zero, an
  empty container), which is left out of the line like an empty string; \<open>text_fields\<close> says that the five
  joined fields of a medication, where present, are such values. \<open>line_of\<close> joins the
  non-empty texts of name (the label \<^verbatim>\<open>Medicine\<close> when the key is absent), dose, route,
  frequency and duration in that order, and appends the note after the dash.
\<close>

fun json_text :: "json \<Rightarrow> pystr" where
  "json_text (JStr s) = s"
| "json_text _ = []"

fun text_or_empty :: "json \<Rightarrow> bool" where
  "text_or_empty (JStr s) = True"
| "text_or_empty v = (\<not> py_truthy v)"

definition joined_fields :: "pystr list" where
  "joined_fields = [str ''name'', str ''dose'', str ''route'', str ''frequency'', str ''duration'']"

definition text_fields :: "(pystr \<rightharpoonup> json) \<Rightarrow> bool" where
  "text_fields m \<longleftrightarrow>
     list_all (\<lambda>k. case m k of None \<Rightarrow> True | Some v \<Rightarrow> text_or_empty v) joined_fields"

definition field_text :: "(pystr \<rightharpoonup> json) \<Rightarrow> pystr \<Rightarrow> pystr" where
  "field_text m k = (case m k of None \<Rightarrow> [] | Some v \<Rightarrow> json_text v)"

definition name_text :: "(pystr \<rightharpoonup> json) \<Rightarrow> pystr" where
  "name_text m = (case m (str ''name'') of None \<Rightarrow> str ''Medicine'' | Some v \<Rightarrow> json_text v)"

definition note_suffix :: "(pystr \<rightharpoonup> json) \<Rightarrow> pystr" where
  "note_suffix m =
     (case m (str ''notes'') of
        None \<Rightarrow> []
      | Some n \<Rightarrow> if py_truthy n then [32, 8212, 32] @ py_format n else [])"

definition line_of :: "(pystr \<rightharpoonup> json) \<Rightarrow> pystr" where
  "line_of m =
     join (str '', '')
       (filter (\<lambda>s. s \<noteq> [])
          [name_text m, field_text m (str ''dose''), field_text m (str ''route''),
           field_text m (str ''frequency''), field_text m (str ''duration'')])
     @ note_suffix m"

subsection \<open>The example medications\<close>

definition ibuprofen :: "pystr \<rightharpoonup> json" where
  "ibuprofen =
     [str ''name'' \<mapsto> JStr (str ''Ibuprofen''), str ''dose'' \<mapsto> JStr (str ''200mg''),
      str ''frequency'' \<mapsto> JStr (str ''2x/day'')]"

definition dose_number :: "pystr \<rightharpoonup> json" where
  "dose_number = [str ''name'' \<mapsto> JStr (str ''Ibuprofen''), str ''dose'' \<mapsto> JInt 200]"

definition note_number :: "pystr \<rightharpoonup> json" where
  "note_number = [str ''name'' \<mapsto> JStr (str ''Ibuprofen''), str ''notes'' \<mapsto> JInt 200]"

section \<open>The document store\<close>

text \<open>
  A value stored in a document: null, a boolean, a string, a list of strings, or a
  timestamp. A timestamp is represented by the text that \<^verbatim>\<open>isoformat()\<close> gives for it.
\<close>

datatype bson = BNull | BBool bool | BStr pystr | BList "pystr list" | BDatetime pystr

text \<open>
  An \<^verbatim>\<open>ObjectId\<close>, represented by the text that \<^verbatim>\<open>str\<close> gives for it (its 24
  hexadecimal digits).
\<close>

datatype objectid = Oid (hex: pystr)

text \<open>
  A document is a dictionary. Its key \<^verbatim>\<open>_id\<close>, which the store assigns and which holds
  an \<^verbatim>\<open>ObjectId\<close>, is the field \<open>doc_id\<close> (\<open>None\<close> when the dictionary has no such
  key); \<open>doc_fields\<close> holds the other keys.
\<close>

record document =
  doc_id :: "objectid option"
  doc_fields :: "pystr \<rightharpoonup> bson"

text \<open>The handle \<^verbatim>\<open>db\<close>: the documents of each collection, in the order of insertion.\<close>

type_synonym database = "string \<Rightarrow> document list"

text \<open>
  The constructor \<^verbatim>\<open>ObjectId(id_str)\<close> belongs to the library \<^verbatim>\<open>bson\<close>. The functions
  that call it take it as the parameter \<open>ObjectId\<close>, \<open>None\<close> where the constructor
  raises; \<open>bson_ObjectId\<close> is the constructor of the library on a string: a string of
  24 characters is handed to \<^verbatim>\<open>bytes.fromhex\<close> and the bytes that come back are the
  identifier, and any other string raises.

  \<^verbatim>\<open>bytes.fromhex\<close> reads pairs of hexadecimal digits and skips ASCII white space
  before a pair and at the end; anything else raises. Its result is given here by the text
  of the bytes in small hexadecimal digits, which is what \<^verbatim>\<open>str\<close> gives for the
  identifier.
\<close>

definition hexdigit :: "nat \<Rightarrow> bool" where
  "hexdigit c \<longleftrightarrow> (48 \<le> c \<and> c \<le> 57) \<or> (65 \<le> c \<and> c \<le> 70) \<or> (97 \<le> c \<and> c \<le> 102)"

definition ascii_space :: "nat \<Rightarrow> bool" where
  "ascii_space c \<longleftrightarrow> (9 \<le> c \<and> c \<le> 13) \<or> c = 32"

definition hexlower :: "nat \<Rightarrow> nat" where
  "hexlower c = (if 65 \<le> c \<and> c \<le> 70 then c + 32 else c)"

fun fromhex :: "pystr \<Rightarrow> pystr option" where
  "fromhex [] = Some []"
| "fromhex [c] = (if ascii_space c then Some [] else None)"
| "fromhex (c # d # cs) =
     (if ascii_space c then fromhex (d # cs)
      else if hexdigit c \<and> hexdigit d
        then map_option (\<lambda>r. hexlower c # hexlower d # r) (fromhex cs)
        else None)"

definition bson_ObjectId :: "pystr \<Rightarrow> objectid option" where
  "bson_ObjectId s = (if length s = 24 then map_option Oid (fromhex s) else None)"

text \<open>
  The identifiers that the specification calls well-formed: the strings of 24 hexadecimal
  digits. Every other string is syntactically invalid.
\<close>

definition well_formed :: "pystr \<Rightarrow> bool" where
  "well_formed s \<longleftrightarrow> length s = 24 \<and> list_all hexdigit s"

definition oid :: "(pystr \<Rightarrow> objectid option) \<Rightarrow> pystr \<Rightarrow> http_error + objectid" where
  "oid ObjectId id_str =
     (case ObjectId id_str of
        Some i \<Rightarrow> Inr i
      | None \<Rightarrow> Inl (HTTPException 400 ''Invalid id format''))"

text \<open>\<^verbatim>\<open>v.isoformat()\<close> for the values that are timestamps.\<close>

fun isoformat :: "bson \<Rightarrow> bson" where
  "isoformat (BDatetime t) = BStr t"
| "isoformat v = v"

text \<open>\<^verbatim>\<open>not doc\<close> for a dictionary: it has no key.\<close>

definition empty_doc :: "document \<Rightarrow> bool" where
  "empty_doc doc \<longleftrightarrow> doc_id doc = None \<and> doc_fields doc = Map.empty"

definition serialize :: "document \<Rightarrow> (pystr \<rightharpoonup> bson)" where
  "serialize doc =
     (if empty_doc doc then Map.empty
      else
        let d = (case doc_id doc of
                   Some i \<Rightarrow> (doc_fields doc)(str ''id'' \<mapsto> BStr (hex i))
                 | None \<Rightarrow> doc_fields doc)
        in (\<lambda>k. map_option isoformat (d k)))"

text \<open>
  \<^verbatim>\<open>collection.find_one({"_id": i})\<close>: the first document with that identifier, if any.
\<close>

definition find_one :: "document list \<Rightarrow> objectid \<Rightarrow> document option" where
  "find_one docs i = List.find (\<lambda>d. doc_id d = Some i) docs"

text \<open>
  \<^verbatim>\<open>collection.update_one({"_id": i}, {"$set": updates})\<close>: the first document with that
  identifier takes the values of \<open>updates\<close> for their keys and keeps its other keys. The
  result is the count of matched documents and the collection after the write.
\<close>

fun update_one ::
  "document list \<Rightarrow> objectid \<Rightarrow> (pystr \<times> bson) list \<Rightarrow> nat \<times> document list" where
  "update_one [] i updates = (0, [])"
| "update_one (d # ds) i updates =
     (if doc_id d = Some i then (1, d\<lparr>doc_fields := doc_fields d ++ map_of updates\<rparr> # ds)
      else (case update_one ds i updates of (n, ds') \<Rightarrow> (n, d # ds')))"

section \<open>Details by identifier\<close>

definition get_patient ::
  "(pystr \<Rightarrow> objectid option) \<Rightarrow> database \<Rightarrow> pystr \<Rightarrow> http_error + (pystr \<rightharpoonup> bson)" where
  "get_patient ObjectId db patient_id =
     (case oid ObjectId patient_id of
        Inl e \<Rightarrow> Inl e
      | Inr i \<Rightarrow>
          (case find_one (db ''patient'') i of
             None \<Rightarrow> Inl (HTTPException 404 ''Patient not found'')
           | Some doc \<Rightarrow>
               if empty_doc doc then Inl (HTTPException 404 ''Patient not found'')
               else Inr (serialize doc)))"

definition get_appointment ::
  "(pystr \<Rightarrow> objectid option) \<Rightarrow> database \<Rightarrow> pystr \<Rightarrow> http_error + (pystr \<rightharpoonup> bson)" where
  "get_appointment ObjectId db appointment_id =
     (case oid ObjectId appointment_id of
        Inl e \<Rightarrow> Inl e
      | Inr i \<Rightarrow>
          (case find_one (db ''appointment'') i of
             None \<Rightarrow> Inl (HTTPException 404 ''Appointment not found'')
           | Some doc \<Rightarrow>
               if empty_doc doc then Inl (HTTPException 404 ''Appointment not found'')
               else Inr (serialize doc)))"

section \<open>Doctor update (\<^verbatim>\<open>update_doctor\<close>)\<close>

record DoctorUpdate =
  full_name :: "pystr option"
  phone :: "pystr option"
  specialty :: "pystr option"
  avatar_url :: "pystr option"
  bio :: "pystr option"
  facility_ids :: "pystr list option"

text \<open>
  \<^verbatim>\<open>payload.model_dump(exclude_none=True).items()\<close>: the fields that are not
  \<^verbatim>\<open>None\<close>, in the order of their declaration.
\<close>

definition dump_str :: "string \<Rightarrow> pystr option \<Rightarrow> (pystr \<times> bson) list" where
  "dump_str k v = (case v of None \<Rightarrow> [] | Some s \<Rightarrow> [(str k, BStr s)])"

definition model_dump_exclude_none :: "DoctorUpdate \<Rightarrow> (pystr \<times> bson) list" where
  "model_dump_exclude_none payload =
     dump_str ''full_name'' (full_name payload) @ dump_str ''phone'' (phone payload) @
     dump_str ''specialty'' (specialty payload) @ dump_str ''avatar_url'' (avatar_url payload) @
     dump_str ''bio'' (bio payload) @
     (case facility_ids payload of None \<Rightarrow> [] | Some l \<Rightarrow> [(str ''facility_ids'', BList l)])"

text \<open>
  The response is a dictionary, or \<open>None\<close> for the \<^verbatim>\<open>None\<close> that \<^verbatim>\<open>serialize\<close> hands
  back when \<^verbatim>\<open>find_one\<close> finds nothing. The second component is the store after the
  request.
\<close>

definition update_doctor ::
  "(pystr \<Rightarrow> objectid option) \<Rightarrow> database \<Rightarrow> pystr \<Rightarrow> DoctorUpdate \<Rightarrow>
     (http_error + (pystr \<rightharpoonup> bson) option) \<times> database" where
  "update_doctor ObjectId db doctor_id payload =
     (let updates = model_dump_exclude_none payload in
      if updates = [] then (Inr (Some [str ''updated'' \<mapsto> BBool False]), db)
      else
        case oid ObjectId doctor_id of
          Inl e \<Rightarrow> (Inl e, db)
        | Inr i \<Rightarrow>
            (case update_one (db ''doctor'') i updates of
               (matched_count, docs) \<Rightarrow>
                 let db' = db(''doctor'' := docs) in
                 if matched_count = 0 then (Inl (HTTPException 404 ''Doctor not found''), db')
                 else
                   case oid ObjectId doctor_id of
                     Inl e \<Rightarrow> (Inl e, db')
                   | Inr j \<Rightarrow> (Inr (map_option serialize (find_one (db' ''doctor'') j)), db')))"

section \<open>Lists (\<^verbatim>\<open>list_doctors\<close>, \<^verbatim>\<open>list_patients\<close>, \<^verbatim>\<open>list_appointments\<close>)\<close>

text \<open>
  A filter dictionary has, for a key, either a value to equal or the regular expression
  \<^verbatim>\<open>{"$regex": pattern, "$options": options}\<close>. Its items are kept in the order in
  which the handler adds them.
\<close>

datatype cond = Eq pystr | Regex pystr pystr

type_synonym query = "(pystr \<times> cond) list"

text \<open>
  The third argument of \<^verbatim>\<open>get_documents\<close>: left out by the caller, or given (where
  \<^verbatim>\<open>limit=None\<close> is \<open>LimitGiven None\<close>).
\<close>

datatype limit_arg = LimitDefault | LimitGiven "nat option"

text \<open>
  The handlers take \<^verbatim>\<open>get_documents\<close>, which \<^verbatim>\<open>database.py\<close> defines, as the
  parameter \<open>get_documents\<close>; its result is \<open>None\<close> when the call raises.
\<close>

type_synonym getter = "string \<Rightarrow> query \<Rightarrow> limit_arg \<Rightarrow> document list option"

text \<open>\<^verbatim>\<open>{key: v} if v else {}\<close>, and \<^verbatim>\<open>if v: q[key] = v\<close>: the item that \<open>v\<close> adds.\<close>

definition eq_item :: "string \<Rightarrow> pystr option \<Rightarrow> query" where
  "eq_item key v = (if truthy v then [(str key, Eq (case v of Some s \<Rightarrow> s | None \<Rightarrow> []))] else [])"

definition list_doctors :: "getter \<Rightarrow> pystr option \<Rightarrow> (pystr \<rightharpoonup> bson) list option" where
  "list_doctors get_documents tenant_id =
     (let q = eq_item ''tenant_id'' tenant_id in
      map_option (map serialize) (get_documents ''doctor'' q LimitDefault))"

definition list_patients ::
  "getter \<Rightarrow> pystr option \<Rightarrow> pystr option \<Rightarrow> (pystr \<rightharpoonup> bson) list option" where
  "list_patients get_documents tenant_id search =
     (let q = eq_item ''tenant_id'' tenant_id;
          q = (if truthy search
               then q @ [(str ''full_name'',
                          Regex (case search of Some s \<Rightarrow> s | None \<Rightarrow> []) (str ''i''))]
               else q)
      in map_option (map serialize) (get_documents ''patient'' q (LimitGiven None)))"

definition list_appointments ::
  "getter \<Rightarrow> pystr option \<Rightarrow> pystr option \<Rightarrow> pystr option \<Rightarrow> (pystr \<rightharpoonup> bson) list option" where
  "list_appointments get_documents doctor_id tenant_id status =
     (let q = [];
          q = q @ eq_item ''doctor_id'' doctor_id;
          q = q @ eq_item ''tenant_id'' tenant_id;
          q = q @ eq_item ''status'' status
      in map_option (map serialize) (get_documents ''appointment'' q LimitDefault))"

section \<open>The query of the store\<close>

text \<open>
  How the store reads a regular expression, for the part of the pattern language that is
  modelled: a pattern of ASCII characters in which every character stands for itself,
  but for the dot, which stands for any character other than a line feed. A pattern with
  another character of the pattern language's syntax, with the character of code 0, or
  with a character beyond ASCII, is outside the model (\<open>None\<close>).
\<close>

datatype rx = Lit nat | AnyChar

definition metachars :: "nat list" where
  "metachars = [92, 94, 36, 46, 124, 63, 42, 43, 40, 41, 91, 93, 123, 125]"

fun parse_regex :: "pystr \<Rightarrow> rx list option" where
  "parse_regex [] = Some []"
| "parse_regex (c # cs) =
     (if c = 46 then map_option ((#) AnyChar) (parse_regex cs)
      else if c = 0 \<or> c \<in> set metachars \<or> 128 \<le> c then None
      else map_option ((#) (Lit c)) (parse_regex cs))"

text \<open>
  Matching without regard to case (the option \<^verbatim>\<open>i\<close>): two characters match when they
  fold to the same; the capital ASCII letters fold to their small letters, and the long s
  (U+017F) and the Kelvin sign (U+212A) to \<^verbatim>\<open>s\<close> and \<^verbatim>\<open>k\<close>.
\<close>

definition casefold :: "nat \<Rightarrow> nat" where
  "casefold c =
     (if 65 \<le> c \<and> c \<le> 90 then c + 32 else if c = 383 then 115 else if c = 8490 then 107
      else c)"

fun rx_atom :: "rx \<Rightarrow> nat \<Rightarrow> bool" where
  "rx_atom (Lit p) c = (casefold c = casefold p)"
| "rx_atom AnyChar c = (c \<noteq> 10)"

fun rx_prefix :: "rx list \<Rightarrow> pystr \<Rightarrow> bool" where
  "rx_prefix [] s = True"
| "rx_prefix (a # as) [] = False"
| "rx_prefix (a # as) (c # cs) = (rx_atom a c \<and> rx_prefix as cs)"

text \<open>The pattern is not anchored: it may match at any position of the subject.\<close>

fun rx_search :: "rx list \<Rightarrow> pystr \<Rightarrow> bool" where
  "rx_search r [] = rx_prefix r []"
| "rx_search r (c # cs) = (rx_prefix r (c # cs) \<or> rx_search r cs)"

text \<open>What a condition asks of the value of its key, in a document.\<close>

fun compile_cond :: "cond \<Rightarrow> (bson option \<Rightarrow> bool) option" where
  "compile_cond (Eq s) = Some (\<lambda>v. v = Some (BStr s))"
| "compile_cond (Regex p opts) =
     (if opts = str ''i''
      then map_option (\<lambda>r v. case v of Some (BStr s) \<Rightarrow> rx_search r s | _ \<Rightarrow> False)
             (parse_regex p)
      else None)"

fun compile_query :: "query \<Rightarrow> (pystr \<times> (bson option \<Rightarrow> bool)) list option" where
  "compile_query [] = Some []"
| "compile_query ((k, c) # q) =
     (case compile_cond c of
        None \<Rightarrow> None
      | Some p \<Rightarrow> map_option ((#) (k, p)) (compile_query q))"

definition satisfies :: "(pystr \<times> (bson option \<Rightarrow> bool)) list \<Rightarrow> document \<Rightarrow> bool" where
  "satisfies ps d = list_all (\<lambda>(k, p). p (doc_fields d k)) ps"

text \<open>A sequence capped at a limit, where there is one.\<close>

definition cap :: "nat option \<Rightarrow> 'a list \<Rightarrow> 'a list" where
  "cap limit xs = (case limit of None \<Rightarrow> xs | Some n \<Rightarrow> take n xs)"

text \<open>
  Modelled from the spec: \<^verbatim>\<open>get_documents\<close> of \<^verbatim>\<open>database.py\<close>, which is not among
  the sources. The specification's \<^verbatim>\<open>query(collection_name, filter, limit?)\<close> returns
  the documents that match an equality or pattern filter, the most recent first, capped at
  the limit, and all of them when the limit is disabled. The limit that applies when the
  caller gives none is the parameter \<open>default_limit\<close>.
\<close>

definition get_documents :: "nat option \<Rightarrow> database \<Rightarrow> getter" where
  "get_documents default_limit db collection_name filter_dict limit =
     (case compile_query filter_dict of
        None \<Rightarrow> None
      | Some ps \<Rightarrow>
          Some (cap (case limit of LimitDefault \<Rightarrow> default_limit | LimitGiven l \<Rightarrow> l)
                  (filter (satisfies ps) (rev (db collection_name)))))"

subsection \<open>The search by substring\<close>

text \<open>
  What the specification says of the listing of patients. \<open>tenant_matches\<close>: the
  constraint of a supplied tenant. \<open>name_contains\<close>: the full name contains the search
  string as a substring, without regard to case. \<open>plain\<close>: a search string of ASCII
  characters none of which belongs to the syntax of regular expressions.
\<close>

definition tenant_matches :: "pystr option \<Rightarrow> document \<Rightarrow> bool" where
  "tenant_matches tenant d =
     (case tenant of
        None \<Rightarrow> True
      | Some t \<Rightarrow> if t = [] then True else doc_fields d (str ''tenant_id'') = Some (BStr t))"

definition name_contains :: "pystr \<Rightarrow> document \<Rightarrow> bool" where
  "name_contains search d =
     (case doc_fields d (str ''full_name'') of
        Some (BStr name) \<Rightarrow> sublist (map casefold search) (map casefold name)
      | _ \<Rightarrow> False)"

definition plain :: "pystr \<Rightarrow> bool" where
  "plain s = list_all (\<lambda>c. 0 < c \<and> c < 128 \<and> c \<notin> set metachars) s"

section \<open>Entity definitions (\<^verbatim>\<open>schemas.py\<close>)\<close>

text \<open>
  The model \<^verbatim>\<open>Appointment\<close>. Its validation reads the JSON object of the request: a
  field declared \<^verbatim>\<open>str\<close> takes a JSON string, a field declared \<^verbatim>\<open>Optional[str]\<close> a
  string or null, an absent key takes the field's default, and a field without a default
  is required. The result \<open>None\<close> is the validation error.
\<close>

record Appointment =
  doctor_id :: pystr
  patient_id :: pystr
  facility_id :: "pystr option"
  start_time :: pystr
  end_time :: "pystr option"
  status :: pystr
  reason :: "pystr option"
  "notes" :: "pystr option"
  tenant_id :: "pystr option"

definition required_str :: "(pystr \<rightharpoonup> json) \<Rightarrow> pystr \<Rightarrow> pystr option" where
  "required_str body k = (case body k of Some (JStr s) \<Rightarrow> Some s | _ \<Rightarrow> None)"

definition optional_str :: "(pystr \<rightharpoonup> json) \<Rightarrow> pystr \<Rightarrow> pystr option option" where
  "optional_str body k =
     (case body k of
        None \<Rightarrow> Some None
      | Some JNull \<Rightarrow> Some None
      | Some (JStr s) \<Rightarrow> Some (Some s)
      | Some _ \<Rightarrow> None)"

definition default_str :: "(pystr \<rightharpoonup> json) \<Rightarrow> pystr \<Rightarrow> pystr \<Rightarrow> pystr option" where
  "default_str body k d =
     (case body k of None \<Rightarrow> Some d | Some (JStr s) \<Rightarrow> Some s | Some _ \<Rightarrow> None)"

definition validate_Appointment :: "(pystr \<rightharpoonup> json) \<Rightarrow> Appointment option" where
  "validate_Appointment body = do {
     d \<leftarrow> required_str body (str ''doctor_id'');
     p \<leftarrow> required_str body (str ''patient_id'');
     f \<leftarrow> optional_str body (str ''facility_id'');
     s \<leftarrow> required_str body (str ''start_time'');
     e \<leftarrow> optional_str body (str ''end_time'');
     st \<leftarrow> default_str body (str ''status'') (str ''scheduled'');
     r \<leftarrow> optional_str body (str ''reason'');
     n \<leftarrow> optional_str body (str ''notes'');
     t \<leftarrow> optional_str body (str ''tenant_id'');
     Some \<lparr>doctor_id = d, patient_id = p, facility_id = f, start_time = s, end_time = e,
           status = st, reason = r, notes = n, tenant_id = t\<rparr>
   }"

text \<open>The values that the description of the field \<^verbatim>\<open>status\<close> lists.\<close>

definition status_values :: "pystr list" where
  "status_values = [str ''scheduled'', str ''completed'', str ''cancelled'', str ''no_show'']"

definition appointment_body :: "pystr \<rightharpoonup> json" where
  "appointment_body =
     [str ''doctor_id'' \<mapsto> JStr (str ''d1''), str ''patient_id'' \<mapsto> JStr (str ''p1''),
      str ''start_time'' \<mapsto> JStr (str ''2024-01-01T09:00'')]"

subsection \<open>The example store\<close>

definition bob :: document where
  "bob = \<lparr>doc_id = Some (Oid (str ''65a000000000000000000001'')),
          doc_fields = [str ''full_name'' \<mapsto> BStr (str ''Bob Stone''),
                        str ''tenant_id'' \<mapsto> BStr (str ''t1'')]\<rparr>"

definition alice :: document where
  "alice = \<lparr>doc_id = Some (Oid (str ''65a000000000000000000002'')),
            doc_fields = [str ''full_name'' \<mapsto> BStr (str ''Alice''),
                          str ''tenant_id'' \<mapsto> BStr (str ''t1'')]\<rparr>"

definition grey :: document where
  "grey = \<lparr>doc_id = Some (Oid (str ''65a000000000000000000003'')),
           doc_fields = [str ''full_name'' \<mapsto> BStr (str ''Dr Grey''),
                         str ''email'' \<mapsto> BStr (str ''grey@example.org''),
                         str ''facility_ids'' \<mapsto> BList []]\<rparr>"

definition clinic :: database where
  "clinic c = (if c = ''patient'' then [bob, alice] else if c = ''doctor'' then [grey] else [])"

definition no_update :: DoctorUpdate where
  "no_update = \<lparr>full_name = None, phone = None, specialty = None, avatar_url = None,
                 bio = None, facility_ids = None\<rparr>"

definition rename_update :: DoctorUpdate where
  "rename_update = \<lparr>full_name = Some (str ''X''), phone = None, specialty = None,
                     avatar_url = None, bio = None, facility_ids = None\<rparr>"

definition grey_id :: pystr where
  "grey_id = str ''65a000000000000000000003''"

definition absent_id :: pystr where
  "absent_id = str ''65A000000000000000000009''"

definition spaced_id :: pystr where
  "spaced_id = str ''65a00000000000000000 01 ''"

section \<open>Properties of the transcript extractor\<close>

lemma strip_dropWhile: "strip (dropWhile isspace s) = strip s"
  by (simp add: strip_def)

lemma match_label_iff:
  "match_label lbl s = Some r \<longleftrightarrow>
     length lbl \<le> length s \<and> list_all2 ci_match lbl (take (length lbl) s) \<and>
     r = drop (length lbl) s"
  by (induction lbl s rule: match_label.induct) auto

lemma match_here_eq:
  "match_here lbl s =
     (if label_at lbl s 0 then Some (dropWhile isspace (drop (length lbl + 1) s)) else None)"
proof (cases "match_label lbl s")
  case None
  then have "\<not> (length lbl \<le> length s \<and> list_all2 ci_match lbl (take (length lbl) s))"
    using match_label_iff [of lbl s "drop (length lbl) s"] by auto
  then have "\<not> label_at lbl s 0" by (auto simp: label_at_def)
  with None show ?thesis by (simp add: match_here_def)
next
  case (Some r)
  then have r: "length lbl \<le> length s" "list_all2 ci_match lbl (take (length lbl) s)"
    "r = drop (length lbl) s"
    by (simp_all add: match_label_iff)
  show ?thesis
  proof (cases r)
    case Nil
    with r have "length s = length lbl" by simp
    then have "\<not> label_at lbl s 0" by (simp add: label_at_def)
    with Some Nil show ?thesis by (simp add: match_here_def)
  next
    case (Cons d ds)
    with r have lt: "length lbl < length s" by (cases "length lbl = length s") auto
    from Cons r have d: "d = s ! length lbl"
      by (metis Cons_nth_drop_Suc list.inject lt)
    from Cons r have ds: "ds = drop (length lbl + 1) s"
      by (metis Cons_nth_drop_Suc Suc_eq_plus1 list.inject lt)
    from r lt d have "label_at lbl s 0 \<longleftrightarrow> d = 58 \<or> d = 45"
      by (simp add: label_at_def)
    with Some Cons ds show ?thesis by (simp add: match_here_def)
  qed
qed

lemma label_at_Suc: "label_at lbl (c # cs) (Suc i) = label_at lbl cs i"
  by (simp add: label_at_def)

lemma label_at_length: "label_at lbl t i \<Longrightarrow> i < length t"
  by (simp add: label_at_def)

lemma re_search_None: "(\<forall>i. \<not> label_at lbl t i) \<Longrightarrow> re_search lbl t = None"
proof (induction t)
  case Nil
  then show ?case by (simp add: match_here_eq)
next
  case (Cons c cs)
  from Cons.prems have "\<forall>i. \<not> label_at lbl cs i"
    using label_at_Suc by blast
  with Cons show ?case by (simp add: match_here_eq)
qed

lemma re_search_Some:
  "label_at lbl t i \<Longrightarrow> \<forall>j<i. \<not> label_at lbl t j \<Longrightarrow>
     re_search lbl t = Some (dropWhile isspace (drop (i + length lbl + 1) t))"
proof (induction t arbitrary: i)
  case Nil
  then show ?case by (simp add: label_at_def)
next
  case (Cons c cs)
  show ?case
  proof (cases i)
    case 0
    with Cons.prems show ?thesis by (simp add: match_here_eq)
  next
    case (Suc k)
    with Cons.prems have k: "label_at lbl cs k" by (simp add: label_at_Suc)
    have "\<forall>j<k. \<not> label_at lbl cs j"
    proof (intro allI impI)
      fix j assume "j < k"
      then have "Suc j < i" using Suc by simp
      with Cons.prems have "\<not> label_at lbl (c # cs) (Suc j)" by blast
      then show "\<not> label_at lbl cs j" by (simp add: label_at_Suc)
    qed
    with k have "re_search lbl cs = Some (dropWhile isspace (drop (k + length lbl + 1) cs))"
      by (rule Cons.IH)
    moreover from Cons.prems Suc have "\<not> label_at lbl (c # cs) 0" by blast
    ultimately show ?thesis using Suc by (simp add: match_here_eq)
  qed
qed

text \<open>A section that \<^verbatim>\<open>find\<close> returns and the cleaning keeps is the section by position.\<close>

lemma find_section_text:
  "(case find_section t lbl of None \<Rightarrow> None | Some v \<Rightarrow> if v = [] then None else Some v) =
     section_text lbl t"
proof (cases "first_label lbl t")
  case None
  then have "\<forall>i<length t. \<not> label_at lbl t i"
    by (auto simp: first_label_def find_None_iff)
  then have "\<forall>i. \<not> label_at lbl t i"
    using label_at_length by blast
  then have "re_search lbl t = None" by (rule re_search_None)
  with None show ?thesis by (simp add: find_section_def section_text_def)
next
  case (Some i)
  then have "label_at lbl t i" "\<forall>j<i. \<not> label_at lbl t j"
    by (auto simp: first_label_def find_Some_iff)
  then have "re_search lbl t = Some (dropWhile isspace (drop (i + length lbl + 1) t))"
    by (rule re_search_Some)
  with Some show ?thesis
    by (simp add: find_section_def section_text_def strip_dropWhile Let_def)
qed

lemma map_of_clean_none:
  "distinct (map fst kvs) \<Longrightarrow>
     map_of (clean_none kvs) k = (case map_of kvs k of None \<Rightarrow> None | Some a \<Rightarrow> keep a)"
proof (induction kvs rule: clean_none.induct)
  case 1
  then show ?case by simp
next
  case (2 k' kvs)
  then have "k' \<notin> fst ` set kvs" by simp
  then have "map_of kvs k' = None" by (simp add: map_of_eq_None_iff)
  with 2 show ?case by (auto simp: keep_def)
next
  case (3 k' v kvs)
  then have "k' \<notin> fst ` set kvs" by simp
  then have "map_of kvs k' = None" by (simp add: map_of_eq_None_iff)
  with 3 show ?case by (auto simp: keep_def)
qed

lemma fst_clean_none: "fst ` set (clean_none kvs) \<subseteq> fst ` set kvs"
  by (induction kvs rule: clean_none.induct) auto

lemma keep_find: "keep (find_section t lbl) = section_text lbl t"
  using find_section_text [of t lbl] by (simp add: keep_def)

lemma keep_py_or: "keep (py_or a b) = (case keep a of Some v \<Rightarrow> Some v | None \<Rightarrow> keep b)"
  by (cases a) (auto simp: keep_def py_or_def)

lemmas emr_eval =
  generate_emr_def str_def strip_def isspace_def find_section_def match_here_def ci_match_def
  py_or_def

lemma generate_emr_plan_rest:
  "generate_emr plan_rest = Inr [(''plan'', str ''rest''), (''summary'', str ''Plan: rest'')]"
  by (simp add: plan_rest_def emr_eval)

subsection \<open>Claims\<close>

text \<open>
  C1. The claim says that a section's value ends where the next label begins, and that
  the transcript \<^verbatim>\<open>"Chief Complaint: cough\nPlan: rest"\<close> yields the chief complaint
  \<^verbatim>\<open>"cough"\<close>. The pattern's group is \<^verbatim>\<open>(.*)\<close> under \<^verbatim>\<open>re.DOTALL\<close>, so the
  value runs to the end of the text: on that transcript the chief complaint is
  \<^verbatim>\<open>"cough\nPlan: rest"\<close>, the plan is \<^verbatim>\<open>"rest"\<close>, and no other section is extracted.
\<close>

theorem generate_emr_cough_rest_counterexample:
  "generate_emr cough_rest =
     Inr [(''chief_complaint'', str ''cough'' @ [10] @ str ''Plan: rest''),
          (''plan'', str ''rest''),
          (''summary'', str ''Chief Complaint: cough'' @ [10] @ str ''Plan: rest'')] \<and>
   str ''cough'' @ [10] @ str ''Plan: rest'' \<noteq> str ''cough''"
  by (simp add: cough_rest_def emr_eval)

text \<open>
  C1, as amended. For every transcript that is not blank, with \<open>text\<close> the trimmed
  transcript: each of the labels hpi, ros, exam, assessment and plan is recognised in any
  case where a colon or a dash follows it immediately, at its leftmost such position, and
  the value of its field is exactly the text after that label and separator up to the end
  of the text, trimmed (\<open>section_text\<close>); the field is absent when the label does not
  occur or that value is empty. The chief complaint is the value for the label
  \<^verbatim>\<open>chief complaint\<close> when there is one, and else the value for \<^verbatim>\<open>cc\<close>. The result has
  no field but these six and the summary.
\<close>

theorem generate_emr_sections:
  assumes "strip (transcript conv) \<noteq> []"
  shows "\<exists>emr. generate_emr conv = Inr emr \<and>
     map_of emr ''chief_complaint'' =
       (case section_text (str ''chief complaint'') (strip (transcript conv)) of
          Some v \<Rightarrow> Some v
        | None \<Rightarrow> section_text (str ''cc'') (strip (transcript conv))) \<and>
     map_of emr ''history_of_present_illness'' =
       section_text (str ''hpi'') (strip (transcript conv)) \<and>
     map_of emr ''review_of_systems'' = section_text (str ''ros'') (strip (transcript conv)) \<and>
     map_of emr ''physical_exam'' = section_text (str ''exam'') (strip (transcript conv)) \<and>
     map_of emr ''assessment'' = section_text (str ''assessment'') (strip (transcript conv)) \<and>
     map_of emr ''plan'' = section_text (str ''plan'') (strip (transcript conv)) \<and>
     fst ` set emr \<subseteq>
       {''chief_complaint'', ''history_of_present_illness'', ''review_of_systems'',
        ''physical_exam'', ''assessment'', ''plan'', ''summary''}"
proof -
  define t where "t = strip (transcript conv)"
  define kvs where "kvs =
          [(''chief_complaint'',
              py_or (find_section t (str ''chief complaint'')) (find_section t (str ''cc''))),
           (''history_of_present_illness'', find_section t (str ''hpi'')),
           (''review_of_systems'', find_section t (str ''ros'')),
           (''physical_exam'', find_section t (str ''exam'')),
           (''assessment'', find_section t (str ''assessment'')),
           (''plan'', find_section t (str ''plan'')),
           (''summary'', Some (take 500 t))]"
  have g: "generate_emr conv = Inr (clean_none kvs)"
    using assms by (simp add: generate_emr_def kvs_def t_def Let_def)
  have d: "distinct (map fst kvs)" by (simp add: kvs_def)
  have m: "map_of (clean_none kvs) k = (case map_of kvs k of None \<Rightarrow> None | Some a \<Rightarrow> keep a)"
    for k using d by (rule map_of_clean_none)
  have "fst ` set (clean_none kvs) \<subseteq> fst ` set kvs" by (rule fst_clean_none)
  also have "fst ` set kvs =
      {''chief_complaint'', ''history_of_present_illness'', ''review_of_systems'',
       ''physical_exam'', ''assessment'', ''plan'', ''summary''}"
    by (simp add: kvs_def)
  finally have k: "fst ` set (clean_none kvs) \<subseteq>
      {''chief_complaint'', ''history_of_present_illness'', ''review_of_systems'',
       ''physical_exam'', ''assessment'', ''plan'', ''summary''}" .
  have 1: "map_of (clean_none kvs) ''chief_complaint'' =
      (case section_text (str ''chief complaint'') t of
         Some v \<Rightarrow> Some v | None \<Rightarrow> section_text (str ''cc'') t)"
    unfolding m by (simp add: kvs_def keep_py_or keep_find split: option.splits)
  have 2: "map_of (clean_none kvs) ''history_of_present_illness'' = section_text (str ''hpi'') t"
    unfolding m by (simp add: kvs_def keep_find)
  have 3: "map_of (clean_none kvs) ''review_of_systems'' = section_text (str ''ros'') t"
    unfolding m by (simp add: kvs_def keep_find)
  have 4: "map_of (clean_none kvs) ''physical_exam'' = section_text (str ''exam'') t"
    unfolding m by (simp add: kvs_def keep_find)
  have 5: "map_of (clean_none kvs) ''assessment'' = section_text (str ''assessment'') t"
    unfolding m by (simp add: kvs_def keep_find)
  have 6: "map_of (clean_none kvs) ''plan'' = section_text (str ''plan'') t"
    unfolding m by (simp add: kvs_def keep_find)
  from g k 1 2 3 4 5 6 show ?thesis unfolding t_def by blast
qed

text \<open>
  The theorem at the transcript \<^verbatim>\<open>"Plan: rest"\<close>: the extractor returns the plan
  \<^verbatim>\<open>"rest"\<close>, which is therefore the section by position, and no chief complaint.
\<close>

theorem generate_emr_sections_witness:
  "strip (transcript plan_rest) \<noteq> [] \<and>
   generate_emr plan_rest = Inr [(''plan'', str ''rest''), (''summary'', str ''Plan: rest'')] \<and>
   section_text (str ''plan'') (strip (transcript plan_rest)) = Some (str ''rest'') \<and>
   section_text (str ''hpi'') (strip (transcript plan_rest)) = None"
proof -
  have h: "strip (transcript plan_rest) \<noteq> []"
    by (simp add: plan_rest_def str_def strip_def isspace_def)
  from generate_emr_sections [OF h] obtain emr where
    e: "generate_emr plan_rest = Inr emr"
    and p: "map_of emr ''plan'' = section_text (str ''plan'') (strip (transcript plan_rest))"
    and q: "map_of emr ''history_of_present_illness'' =
              section_text (str ''hpi'') (strip (transcript plan_rest))"
    by blast
  from e have emr: "emr = [(''plan'', str ''rest''), (''summary'', str ''Plan: rest'')]"
    by (simp add: generate_emr_plan_rest)
  from p q h show ?thesis
    unfolding emr by (simp add: generate_emr_plan_rest)
qed

text \<open>
  C2. The claim says that the summary is the first 500 characters of the input, verbatim.
  The extractor trims the transcript first: for the transcript \<^verbatim>\<open>" a"\<close> the summary is
  \<^verbatim>\<open>"a"\<close>, not the input's first characters \<^verbatim>\<open>" a"\<close>.
\<close>

theorem generate_emr_summary_counterexample:
  "generate_emr \<lparr>transcript = str '' a'', style = None\<rparr> = Inr [(''summary'', str ''a'')] \<and>
   str ''a'' \<noteq> take 500 (str '' a'')"
  by (simp add: emr_eval)

text \<open>
  C2, as amended. For every transcript that is not blank, the result of the extractor has
  a summary field, and the summary is the first 500 characters of the trimmed transcript.
\<close>

theorem generate_emr_summary:
  assumes "strip (transcript conv) \<noteq> []"
  shows "\<exists>emr. generate_emr conv = Inr emr \<and>
           map_of emr ''summary'' = Some (take 500 (strip (transcript conv)))"
proof -
  define t where "t = strip (transcript conv)"
  define kvs where "kvs =
          [(''chief_complaint'',
              py_or (find_section t (str ''chief complaint'')) (find_section t (str ''cc''))),
           (''history_of_present_illness'', find_section t (str ''hpi'')),
           (''review_of_systems'', find_section t (str ''ros'')),
           (''physical_exam'', find_section t (str ''exam'')),
           (''assessment'', find_section t (str ''assessment'')),
           (''plan'', find_section t (str ''plan'')),
           (''summary'', Some (take 500 t))]"
  have g: "generate_emr conv = Inr (clean_none kvs)"
    using assms by (simp add: generate_emr_def kvs_def t_def Let_def)
  have d: "distinct (map fst kvs)" by (simp add: kvs_def)
  have "map_of (clean_none kvs) ''summary'' = keep (Some (take 500 t))"
    unfolding map_of_clean_none [OF d] by (simp add: kvs_def)
  also have "\<dots> = Some (take 500 t)"
    using assms by (simp add: keep_def t_def)
  finally show ?thesis using g unfolding t_def by blast
qed

theorem generate_emr_summary_witness:
  "strip (transcript plan_rest) \<noteq> [] \<and>
   (\<exists>emr. generate_emr plan_rest = Inr emr \<and> map_of emr ''summary'' = Some (str ''Plan: rest''))"
proof -
  have h: "strip (transcript plan_rest) \<noteq> []"
    by (simp add: plan_rest_def str_def strip_def isspace_def)
  have "take 500 (strip (transcript plan_rest)) = str ''Plan: rest''"
    by (simp add: plan_rest_def str_def strip_def isspace_def)
  with generate_emr_summary [OF h] h show ?thesis by simp
qed

text \<open>
  C9. A transcript whose trimmed text is empty is refused with status 400, and there is no
  extraction result.
\<close>

theorem generate_emr_empty:
  "strip (transcript conv) = [] \<Longrightarrow>
     generate_emr conv = Inl (HTTPException 400 ''Transcript is empty'')"
  by (simp add: generate_emr_def)

theorem generate_emr_empty_witness:
  "strip (transcript \<lparr>transcript = [32, 10, 9], style = None\<rparr>) = [] \<and>
   generate_emr \<lparr>transcript = [32, 10, 9], style = None\<rparr> =
     Inl (HTTPException 400 ''Transcript is empty'') \<and>
   generate_emr \<lparr>transcript = [], style = None\<rparr> =
     Inl (HTTPException 400 ''Transcript is empty'')"
proof -
  have h: "strip (transcript \<lparr>transcript = [32, 10, 9], style = None\<rparr>) = []"
    by (simp add: strip_def isspace_def)
  have e: "strip (transcript \<lparr>transcript = [], style = None\<rparr>) = []"
    by (simp add: strip_def)
  from generate_emr_empty [OF h] generate_emr_empty [OF e] h show ?thesis by simp
qed

section \<open>Properties of the prescription preview\<close>

lemma str_items_texts:
  "list_all text_or_empty vs \<Longrightarrow>
     str_items (filter py_truthy vs) = Inr (filter (\<lambda>s. s \<noteq> []) (map json_text vs))"
proof (induction vs)
  case Nil
  then show ?case by simp
next
  case (Cons v vs)
  then show ?case by (cases v) auto
qed

lemma dict_get_text:
  "(case m k of None \<Rightarrow> True | Some v \<Rightarrow> text_or_empty v) \<Longrightarrow>
     text_or_empty (dict_get m k (JStr d))"
  by (cases "m k") (simp_all add: dict_get_def)

lemma medication_line_text:
  assumes "text_fields m"
  shows "medication_line m = Inr (line_of m)"
proof -
  let ?vs = "[dict_get m (str ''name'') (JStr (str ''Medicine'')),
              dict_get m (str ''dose'') (JStr []), dict_get m (str ''route'') (JStr []),
              dict_get m (str ''frequency'') (JStr []), dict_get m (str ''duration'') (JStr [])]"
  let ?note = "dict_get m (str ''notes'') (JStr [])"
  from assms have "list_all text_or_empty ?vs"
    by (simp add: text_fields_def joined_fields_def dict_get_text)
  then have s: "str_items (filter py_truthy ?vs) =
      Inr (filter (\<lambda>s. s \<noteq> []) (map json_text ?vs))"
    by (rule str_items_texts)
  have t: "map json_text ?vs =
     [name_text m, field_text m (str ''dose''), field_text m (str ''route''),
      field_text m (str ''frequency''), field_text m (str ''duration'')]"
    by (simp add: dict_get_def name_text_def field_text_def split: option.splits)
  have n: "(if py_truthy ?note then [32, 8212, 32] @ py_format ?note else []) = note_suffix m"
    by (simp add: dict_get_def note_suffix_def split: option.splits)
  have "medication_line m =
     Inr (join (str '', '') (filter (\<lambda>s. s \<noteq> []) (map json_text ?vs)) @
          (if py_truthy ?note then [32, 8212, 32] @ py_format ?note else []))"
    unfolding medication_line_def py_join_def Let_def s by simp
  then show ?thesis unfolding t n line_of_def .
qed

lemma preview_lines_text:
  "list_all text_fields ms \<Longrightarrow> preview_lines ms = Inr (map line_of ms)"
  by (induction ms) (simp_all add: medication_line_text)

subsection \<open>Claims\<close>

text \<open>
  For medications whose joined fields are text, the preview is as described: one line for
  each medication, in the order of the input, each line the non-empty ones of name, dose,
  route, frequency and duration joined with \<^verbatim>\<open>", "\<close>, the name being the label
  \<^verbatim>\<open>Medicine\<close> when the medication has no name key, followed by a non-empty note after
  a space, an em dash and a space; and the count is the number of lines.
\<close>

lemma prescription_preview_lines:
  assumes "list_all text_fields (medications payload)"
  shows "prescription_preview payload =
    Inr \<lparr>preview = join [10] (map line_of (medications payload)),
         count = length (map line_of (medications payload))\<rparr>"
  using assms by (simp add: prescription_preview_def preview_lines_text)

text \<open>
  The example of the specification: the medication Ibuprofen, 200mg, 2x/day gives the
  preview \<^verbatim>\<open>"Ibuprofen, 200mg, 2x/day"\<close> and the count 1.
\<close>

lemma prescription_preview_ibuprofen:
  "prescription_preview \<lparr>medications = [ibuprofen], notes = None\<rparr> =
     Inr \<lparr>preview = str ''Ibuprofen, 200mg, 2x/day'', count = 1\<rparr>"
proof -
  have h: "list_all text_fields (medications \<lparr>medications = [ibuprofen], notes = None\<rparr>)"
    by (simp add: text_fields_def joined_fields_def ibuprofen_def str_def)
  have l: "line_of ibuprofen = str ''Ibuprofen, 200mg, 2x/day''"
    by (simp add: line_of_def name_text_def field_text_def note_suffix_def ibuprofen_def
        str_def)
  from prescription_preview_lines [OF h] l show ?thesis by simp
qed

text \<open>
  C4. The claim holds of every medication list: one line for each medication, made of its
  non-empty fields. The code misses the case of a joined field that is not text. A
  medication is an open dictionary, and for the one medication
  \<^verbatim>\<open>{"name": "Ibuprofen", "dose": 200}\<close> the call \<^verbatim>\<open>", ".join\<close> raises
  \<^verbatim>\<open>TypeError\<close>: the preview produces no line and no count. The note of the same loop
  goes through an f-string, which formats a number: \<^verbatim>\<open>{"name": "Ibuprofen", "notes": 200}\<close>
  gives a line: the name, the dash and \<^verbatim>\<open>200\<close>.
\<close>

theorem prescription_preview_number_raises:
  "prescription_preview \<lparr>medications = [dose_number], notes = None\<rparr> = Inl TypeError \<and>
   prescription_preview \<lparr>medications = [note_number], notes = None\<rparr> =
     Inr \<lparr>preview = str ''Ibuprofen'' @ [32, 8212, 32] @ str ''200'', count = 1\<rparr>"
  by (simp add: prescription_preview_def medication_line_def dict_get_def py_join_def
      dose_number_def note_number_def str_def str_nat.simps)

section \<open>Properties of the lists\<close>

lemma parse_regex_plain: "plain s \<Longrightarrow> parse_regex s = Some (map Lit s)"
  by (induction s) (auto simp: plain_def metachars_def)

lemma rx_prefix_lits:
  "rx_prefix (map Lit p) s \<longleftrightarrow> prefix (map casefold p) (map casefold s)"
  by (induction "map Lit p" s arbitrary: p rule: rx_prefix.induct) auto

lemma rx_search_lits:
  "rx_search (map Lit p) s \<longleftrightarrow> sublist (map casefold p) (map casefold s)"
proof (induction s)
  case Nil
  then show ?case by (cases p) simp_all
next
  case (Cons c cs)
  then show ?case by (simp add: rx_prefix_lits sublist_Cons_right)
qed

lemma compile_query_eq_item:
  "compile_query (eq_item key v @ q) =
     (if truthy v
      then map_option ((#) (str key, \<lambda>x. x = Some (BStr (case v of Some s \<Rightarrow> s | None \<Rightarrow> []))))
             (compile_query q)
      else compile_query q)"
  by (simp add: eq_item_def)

lemma satisfies_tenant:
  "satisfies (the (compile_query (eq_item ''tenant_id'' tenant @ q))) d \<longleftrightarrow>
     tenant_matches tenant d \<and> satisfies (the (compile_query q)) d"
  if "compile_query q \<noteq> None"
  using that
  by (cases tenant) (auto simp: compile_query_eq_item satisfies_def tenant_matches_def)

subsection \<open>Claims\<close>

text \<open>
  C3. The claim says that the search is a substring match: a patient is returned if and
  only if the full name contains the search string. The handler hands the search string to
  the store as the pattern of \<^verbatim>\<open>$regex\<close>, so the store reads it as a regular
  expression: for the search string \<^verbatim>\<open>"."\<close> both patients of the example store are
  returned, and neither name contains a dot.
\<close>

theorem list_patients_regex_counterexample:
  "list_patients (get_documents None clinic) None (Some (str ''.'')) =
     Some [serialize alice, serialize bob] \<and> \<not> name_contains (str ''.'') alice \<and>
     \<not> name_contains (str ''.'') bob"
  by (simp add: list_patients_def get_documents_def cap_def clinic_def satisfies_def eq_item_def
      name_contains_def alice_def bob_def str_def casefold_def metachars_def sublist_code)

text \<open>
  C3, as amended. The search string is the pattern of a regular expression, matched
  without regard to case at any position of the full name. For every search string that is
  not empty and has only ASCII characters outside the syntax of regular expressions, this
  is the substring match: a patient document is returned if and only if it satisfies the
  tenant constraint, when one is supplied, and its full name contains the search string as
  a substring, without regard to case; the parameters combine with logical AND.
\<close>

theorem list_patients_search:
  assumes "search \<noteq> []" and "plain search"
  shows "list_patients (get_documents default_limit db) tenant (Some search) =
     Some (map serialize
       (filter (\<lambda>d. tenant_matches tenant d \<and> name_contains search d) (rev (db ''patient''))))"
proof -
  let ?q = "[(str ''full_name'', Regex search (str ''i''))]"
  let ?p = "\<lambda>v. case v of Some (BStr s) \<Rightarrow> rx_search (map Lit search) s | _ \<Rightarrow> False"
  have c: "compile_query ?q = Some [(str ''full_name'', ?p)]"
    using assms(2) by (simp add: parse_regex_plain)
  have n: "satisfies [(str ''full_name'', ?p)] d \<longleftrightarrow> name_contains search d" for d
    by (simp add: satisfies_def name_contains_def rx_search_lits
        split: option.splits bson.splits)
  have s: "satisfies (the (compile_query (eq_item ''tenant_id'' tenant @ ?q))) d \<longleftrightarrow>
      tenant_matches tenant d \<and> name_contains search d" for d
    using satisfies_tenant [of ?q tenant d] c n by simp
  have "compile_query (eq_item ''tenant_id'' tenant @ ?q) \<noteq> None"
    using c by (simp add: compile_query_eq_item)
  then obtain ps where ps: "compile_query (eq_item ''tenant_id'' tenant @ ?q) = Some ps"
    by blast
  with s have "satisfies ps d \<longleftrightarrow> tenant_matches tenant d \<and> name_contains search d" for d
    by simp
  then have "filter (satisfies ps) xs =
      filter (\<lambda>d. tenant_matches tenant d \<and> name_contains search d) xs" for xs
    by (intro filter_cong) simp_all
  with ps assms(1) show ?thesis
    by (simp add: list_patients_def get_documents_def cap_def Let_def)
qed

text \<open>
  The theorem on the example store, for the search string \<^verbatim>\<open>"bo"\<close>: of Bob Stone
  and Alice, Bob Stone is returned.
\<close>

theorem list_patients_search_witness:
  "str ''bo'' \<noteq> [] \<and> plain (str ''bo'') \<and>
   list_patients (get_documents None clinic) None (Some (str ''bo'')) = Some [serialize bob]"
proof -
  have h: "str ''bo'' \<noteq> []" "plain (str ''bo'')"
    by (simp_all add: str_def plain_def metachars_def)
  have "filter (\<lambda>d. tenant_matches None d \<and> name_contains (str ''bo'') d) (rev (clinic ''patient''))
      = [bob]"
    by (simp add: clinic_def tenant_matches_def name_contains_def alice_def bob_def str_def
        casefold_def sublist_code)
  with list_patients_search [OF h, of None clinic None] h show ?thesis by simp
qed

text \<open>
  C10. For each of the three list operations and each of its query parameters, the empty
  string gives the same result as the absent parameter, whatever the other parameters and
  whatever the store returns. Neither adds an item to the filter: with every parameter
  absent or empty the filter handed to the store is empty, and a parameter that is not
  empty adds its own item and nothing else (the equality with its value, or for the search
  the regular expression), in the order tenant, search for the patients and doctor,
  tenant, status for the appointments.
\<close>

theorem list_empty_parameter:
  "list_doctors gd (Some []) = list_doctors gd None \<and>
   list_patients gd (Some []) search = list_patients gd None search \<and>
   list_patients gd tenant (Some []) = list_patients gd tenant None \<and>
   list_appointments gd (Some []) tenant st = list_appointments gd None tenant st \<and>
   list_appointments gd doctor (Some []) st = list_appointments gd doctor None st \<and>
   list_appointments gd doctor tenant (Some []) = list_appointments gd doctor tenant None \<and>
   list_doctors gd None = map_option (map serialize) (gd ''doctor'' [] LimitDefault) \<and>
   list_doctors gd (Some []) = map_option (map serialize) (gd ''doctor'' [] LimitDefault) \<and>
   list_doctors gd (Some (y # t)) =
     map_option (map serialize) (gd ''doctor'' [(str ''tenant_id'', Eq (y # t))] LimitDefault) \<and>
   list_patients gd None None =
     map_option (map serialize) (gd ''patient'' [] (LimitGiven None)) \<and>
   list_patients gd (Some []) (Some []) =
     map_option (map serialize) (gd ''patient'' [] (LimitGiven None)) \<and>
   list_patients gd (Some (y # t)) None =
     map_option (map serialize)
       (gd ''patient'' [(str ''tenant_id'', Eq (y # t))] (LimitGiven None)) \<and>
   list_patients gd None (Some (z # s)) =
     map_option (map serialize)
       (gd ''patient'' [(str ''full_name'', Regex (z # s) (str ''i''))] (LimitGiven None)) \<and>
   list_patients gd (Some (y # t)) (Some (z # s)) =
     map_option (map serialize)
       (gd ''patient''
          [(str ''tenant_id'', Eq (y # t)), (str ''full_name'', Regex (z # s) (str ''i''))]
          (LimitGiven None)) \<and>
   list_appointments gd None None None =
     map_option (map serialize) (gd ''appointment'' [] LimitDefault) \<and>
   list_appointments gd (Some []) (Some []) (Some []) =
     map_option (map serialize) (gd ''appointment'' [] LimitDefault) \<and>
   list_appointments gd (Some (x # d)) None None =
     map_option (map serialize)
       (gd ''appointment'' [(str ''doctor_id'', Eq (x # d))] LimitDefault) \<and>
   list_appointments gd None (Some (y # t)) None =
     map_option (map serialize)
       (gd ''appointment'' [(str ''tenant_id'', Eq (y # t))] LimitDefault) \<and>
   list_appointments gd None None (Some (z # s)) =
     map_option (map serialize)
       (gd ''appointment'' [(str ''status'', Eq (z # s))] LimitDefault) \<and>
   list_appointments gd (Some (x # d)) (Some (y # t)) None =
     map_option (map serialize)
       (gd ''appointment'' [(str ''doctor_id'', Eq (x # d)), (str ''tenant_id'', Eq (y # t))]
          LimitDefault) \<and>
   list_appointments gd (Some (x # d)) None (Some (z # s)) =
     map_option (map serialize)
       (gd ''appointment'' [(str ''doctor_id'', Eq (x # d)), (str ''status'', Eq (z # s))]
          LimitDefault) \<and>
   list_appointments gd None (Some (y # t)) (Some (z # s)) =
     map_option (map serialize)
       (gd ''appointment'' [(str ''tenant_id'', Eq (y # t)), (str ''status'', Eq (z # s))]
          LimitDefault) \<and>
   list_appointments gd (Some (x # d)) (Some (y # t)) (Some (z # s)) =
     map_option (map serialize)
       (gd ''appointment''
          [(str ''doctor_id'', Eq (x # d)), (str ''tenant_id'', Eq (y # t)),
           (str ''status'', Eq (z # s))]
          LimitDefault)"
  by (simp add: list_doctors_def list_patients_def list_appointments_def eq_item_def)

section \<open>Properties of the requests by identifier\<close>

lemma find_one_None: "find_one ds i = None \<longleftrightarrow> (\<forall>d\<in>set ds. doc_id d \<noteq> Some i)"
  by (auto simp: find_one_def find_None_iff)

lemma update_one_none:
  "find_one ds i = None \<Longrightarrow> update_one ds i u = (0, ds)"
  by (induction ds) (auto simp: find_one_def)





lemma hexdigit_not_space: "hexdigit c \<Longrightarrow> \<not> ascii_space c"
  by (auto simp: hexdigit_def ascii_space_def)

lemma fromhex_digits:
  "list_all hexdigit s \<Longrightarrow> even (length s) \<Longrightarrow> fromhex s = Some (map hexlower s)"
  by (induction s rule: fromhex.induct) (auto simp: hexdigit_not_space)

lemma fromhex_other:
  "c \<in> set s \<Longrightarrow> \<not> hexdigit c \<Longrightarrow> \<not> ascii_space c \<Longrightarrow> fromhex s = None"
  by (induction s rule: fromhex.induct) auto

lemma bson_ObjectId_well_formed:
  "well_formed s \<Longrightarrow> bson_ObjectId s = Some (Oid (map hexlower s))"
  by (simp add: well_formed_def bson_ObjectId_def fromhex_digits)

lemma bson_ObjectId_refuses:
  "length s \<noteq> 24 \<or> (\<exists>c\<in>set s. \<not> hexdigit c \<and> \<not> ascii_space c) \<Longrightarrow>
     bson_ObjectId s = None"
  by (auto simp: bson_ObjectId_def fromhex_other)

lemma ObjectId_nope: "bson_ObjectId (str ''nope'') = None"
  by (simp add: bson_ObjectId_def str_def)


lemma well_formed_absent: "well_formed absent_id"
  by (simp add: well_formed_def absent_id_def str_def hexdigit_def)


lemma ObjectId_absent: "bson_ObjectId absent_id = Some (Oid (str ''65a000000000000000000009''))"
  using bson_ObjectId_well_formed [OF well_formed_absent]
  by (simp add: absent_id_def str_def hexlower_def)

lemma ObjectId_spaced: "bson_ObjectId spaced_id = Some (Oid (str ''65a0000000000000000001''))"
  by (simp add: bson_ObjectId_def spaced_id_def str_def hexdigit_def ascii_space_def
      hexlower_def)

lemma dump_no_update: "model_dump_exclude_none no_update = []"
  by (simp add: model_dump_exclude_none_def dump_str_def no_update_def)

lemma dump_rename: "model_dump_exclude_none rename_update = [(str ''full_name'', BStr (str ''X''))]"
  by (simp add: model_dump_exclude_none_def dump_str_def rename_update_def)

lemma absent_everywhere:
  "\<forall>d\<in>set (clinic c). doc_id d \<noteq> Some (Oid (str ''65a000000000000000000009''))"
  by (simp add: clinic_def bob_def alice_def grey_def str_def)

lemma spaced_everywhere:
  "\<forall>d\<in>set (clinic c). doc_id d \<noteq> Some (Oid (str ''65a0000000000000000001''))"
  by (simp add: clinic_def bob_def alice_def grey_def str_def)


subsection \<open>Claims\<close>

text \<open>
  C6. The claim counts the update of a doctor among the requests that fail on a malformed
  or an unknown identifier. \<^verbatim>\<open>update_doctor\<close> returns \<^verbatim>\<open>{"updated": False}\<close> for an
  update without fields before it reads the identifier: with the malformed identifier
  \<^verbatim>\<open>"nope"\<close>, and with a well-formed identifier that no doctor has, such an update
  raises nothing and reports that nothing was updated. And the library accepts some
  strings that are not well-formed: the 24 characters \<^verbatim>\<open>"65a00000000000000000 01 "\<close>,
  with two spaces, are read as an identifier of eleven bytes, and get patient answers
  404 for them, not 400.
\<close>

theorem update_doctor_identifier_counterexample:
  "\<not> well_formed (str ''nope'') \<and>
   update_doctor bson_ObjectId clinic (str ''nope'') no_update =
     (Inr (Some [str ''updated'' \<mapsto> BBool False]), clinic) \<and>
   well_formed absent_id \<and>
   find_one (clinic ''doctor'') (Oid (str ''65a000000000000000000009'')) = None \<and>
   update_doctor bson_ObjectId clinic absent_id no_update =
     (Inr (Some [str ''updated'' \<mapsto> BBool False]), clinic) \<and>
   \<not> well_formed spaced_id \<and>
   get_patient bson_ObjectId clinic spaced_id = Inl (HTTPException 404 ''Patient not found'')"
proof -
  have 1: "\<not> well_formed (str ''nope'')" by (simp add: well_formed_def str_def)
  have 2: "update_doctor bson_ObjectId clinic s no_update =
      (Inr (Some [str ''updated'' \<mapsto> BBool False]), clinic)" for s
    by (simp add: update_doctor_def dump_no_update)
  have 3: "find_one (clinic ''doctor'') (Oid (str ''65a000000000000000000009'')) = None"
    using absent_everywhere [of "''doctor''"] by (simp add: find_one_None)
  have 4: "\<not> well_formed spaced_id"
    by (simp add: well_formed_def spaced_id_def str_def hexdigit_def)
  have "find_one (clinic ''patient'') (Oid (str ''65a0000000000000000001'')) = None"
    using spaced_everywhere [of "''patient''"] by (simp add: find_one_None)
  then have 5: "get_patient bson_ObjectId clinic spaced_id =
      Inl (HTTPException 404 ''Patient not found'')"
    by (simp add: get_patient_def oid_def ObjectId_spaced)
  from 1 2 3 4 5 well_formed_absent show ?thesis by simp
qed

text \<open>
  C6, as amended. For the requests get patient and get appointment, and for the update of
  a doctor with at least one field: an identifier string that has not 24 characters, or
  that has a character which is neither a hexadecimal digit nor ASCII white space, fails
  with status 400 (invalid identifier), never with 404; a well-formed identifier, of 24
  hexadecimal digits, that no document of the collection has fails with status 404 (not
  found). In both cases the update leaves the store as it was. (An update without fields
  answers \<^verbatim>\<open>{"updated": False}\<close> whatever the identifier; nothing is said of the strings
  of 24 characters made of hexadecimal digits and white space.)
\<close>

theorem get_by_id_errors:
  "(length s \<noteq> 24 \<or> (\<exists>c\<in>set s. \<not> hexdigit c \<and> \<not> ascii_space c) \<longrightarrow>
      get_patient bson_ObjectId db s = Inl (HTTPException 400 ''Invalid id format'') \<and>
      get_appointment bson_ObjectId db s = Inl (HTTPException 400 ''Invalid id format'') \<and>
      (model_dump_exclude_none payload \<noteq> [] \<longrightarrow>
         update_doctor bson_ObjectId db s payload =
           (Inl (HTTPException 400 ''Invalid id format''), db))) \<and>
   (well_formed s \<longrightarrow>
      ((\<forall>d\<in>set (db ''patient''). doc_id d \<noteq> Some (Oid (map hexlower s))) \<longrightarrow>
         get_patient bson_ObjectId db s = Inl (HTTPException 404 ''Patient not found'')) \<and>
      ((\<forall>d\<in>set (db ''appointment''). doc_id d \<noteq> Some (Oid (map hexlower s))) \<longrightarrow>
         get_appointment bson_ObjectId db s =
           Inl (HTTPException 404 ''Appointment not found'')) \<and>
      (model_dump_exclude_none payload \<noteq> [] \<and>
       (\<forall>d\<in>set (db ''doctor''). doc_id d \<noteq> Some (Oid (map hexlower s))) \<longrightarrow>
         update_doctor bson_ObjectId db s payload =
           (Inl (HTTPException 404 ''Doctor not found''), db)))"
proof -
  have a: "get_patient bson_ObjectId db s = Inl (HTTPException 400 ''Invalid id format'')"
    "get_appointment bson_ObjectId db s = Inl (HTTPException 400 ''Invalid id format'')"
    if "length s \<noteq> 24 \<or> (\<exists>c\<in>set s. \<not> hexdigit c \<and> \<not> ascii_space c)"
    using bson_ObjectId_refuses [OF that]
    by (simp_all add: get_patient_def get_appointment_def oid_def)
  have b: "update_doctor bson_ObjectId db s payload =
      (Inl (HTTPException 400 ''Invalid id format''), db)"
    if "length s \<noteq> 24 \<or> (\<exists>c\<in>set s. \<not> hexdigit c \<and> \<not> ascii_space c)"
      "model_dump_exclude_none payload \<noteq> []"
    using bson_ObjectId_refuses [OF that(1)] that(2) by (simp add: update_doctor_def oid_def)
  have c: "get_patient bson_ObjectId db s = Inl (HTTPException 404 ''Patient not found'')"
    if "well_formed s" "\<forall>d\<in>set (db ''patient''). doc_id d \<noteq> Some (Oid (map hexlower s))"
    using bson_ObjectId_well_formed [OF that(1)] that(2)
      find_one_None [of "db ''patient''" "Oid (map hexlower s)"]
    by (simp add: get_patient_def oid_def)
  have d: "get_appointment bson_ObjectId db s =
      Inl (HTTPException 404 ''Appointment not found'')"
    if "well_formed s"
      "\<forall>d\<in>set (db ''appointment''). doc_id d \<noteq> Some (Oid (map hexlower s))"
    using bson_ObjectId_well_formed [OF that(1)] that(2)
      find_one_None [of "db ''appointment''" "Oid (map hexlower s)"]
    by (simp add: get_appointment_def oid_def)
  have e: "update_doctor bson_ObjectId db s payload =
      (Inl (HTTPException 404 ''Doctor not found''), db)"
    if "well_formed s" "model_dump_exclude_none payload \<noteq> []"
      "\<forall>d\<in>set (db ''doctor''). doc_id d \<noteq> Some (Oid (map hexlower s))"
  proof -
    from that(3) have "find_one (db ''doctor'') (Oid (map hexlower s)) = None"
      by (simp add: find_one_None)
    then have "update_one (db ''doctor'') (Oid (map hexlower s))
        (model_dump_exclude_none payload) = (0, db ''doctor'')"
      by (rule update_one_none)
    with bson_ObjectId_well_formed [OF that(1)] that(2) show ?thesis
      by (simp add: update_doctor_def oid_def)
  qed
  from a b c d e show ?thesis by blast
qed

text \<open>
  The theorem on the example store, for the identifier \<^verbatim>\<open>"nope"\<close> and for an
  identifier of 24 hexadecimal digits that no document has.
\<close>

theorem get_by_id_errors_witness:
  "length (str ''nope'') \<noteq> 24 \<and>
   get_patient bson_ObjectId clinic (str ''nope'') =
     Inl (HTTPException 400 ''Invalid id format'') \<and>
   get_appointment bson_ObjectId clinic (str ''nope'') =
     Inl (HTTPException 400 ''Invalid id format'') \<and>
   model_dump_exclude_none rename_update \<noteq> [] \<and>
   update_doctor bson_ObjectId clinic (str ''nope'') rename_update =
     (Inl (HTTPException 400 ''Invalid id format''), clinic) \<and>
   well_formed absent_id \<and>
   get_patient bson_ObjectId clinic absent_id = Inl (HTTPException 404 ''Patient not found'') \<and>
   get_appointment bson_ObjectId clinic absent_id =
     Inl (HTTPException 404 ''Appointment not found'') \<and>
   update_doctor bson_ObjectId clinic absent_id rename_update =
     (Inl (HTTPException 404 ''Doctor not found''), clinic)"
proof -
  have n: "model_dump_exclude_none rename_update \<noteq> []" by (simp add: dump_rename)
  have l: "length (str ''nope'') \<noteq> 24" by (simp add: str_def)
  have m: "map hexlower absent_id = str ''65a000000000000000000009''"
    by (simp add: absent_id_def str_def hexlower_def)
  from get_by_id_errors [of "str ''nope''" clinic rename_update] l n
  have 1: "get_patient bson_ObjectId clinic (str ''nope'') =
       Inl (HTTPException 400 ''Invalid id format'')"
    "get_appointment bson_ObjectId clinic (str ''nope'') =
       Inl (HTTPException 400 ''Invalid id format'')"
    "update_doctor bson_ObjectId clinic (str ''nope'') rename_update =
       (Inl (HTTPException 400 ''Invalid id format''), clinic)"
    by blast+
  from get_by_id_errors [of absent_id clinic rename_update] well_formed_absent n
    absent_everywhere
  have 2: "get_patient bson_ObjectId clinic absent_id =
       Inl (HTTPException 404 ''Patient not found'')"
    "get_appointment bson_ObjectId clinic absent_id =
       Inl (HTTPException 404 ''Appointment not found'')"
    "update_doctor bson_ObjectId clinic absent_id rename_update =
       (Inl (HTTPException 404 ''Doctor not found''), clinic)"
    unfolding m by blast+
  from 1 2 l n well_formed_absent show ?thesis by simp
qed

text \<open>
  C7. An update of a doctor without fields writes nothing: the store after the request is
  the store before it, nothing is raised, and the response is \<^verbatim>\<open>{"updated": False}\<close>.
\<close>

theorem update_doctor_empty:
  assumes "model_dump_exclude_none payload = []"
  shows "update_doctor ObjectId db s payload = (Inr (Some [str ''updated'' \<mapsto> BBool False]), db)"
  using assms by (simp add: update_doctor_def)

theorem update_doctor_empty_witness:
  "model_dump_exclude_none no_update = [] \<and>
   update_doctor bson_ObjectId clinic grey_id no_update =
     (Inr (Some [str ''updated'' \<mapsto> BBool False]), clinic)"
  using update_doctor_empty [OF dump_no_update, of bson_ObjectId clinic grey_id] dump_no_update
  by simp



section \<open>Properties of the entity definitions\<close>

lemma appointment_default_status:
  "body (str ''status'') = None \<Longrightarrow> validate_Appointment body = Some a \<Longrightarrow>
     status a = str ''scheduled''"
  by (auto simp: validate_Appointment_def default_str_def split: Option.bind_splits)

subsection \<open>Claims\<close>

text \<open>
  C5. The description of the field \<^verbatim>\<open>status\<close> lists the values scheduled,
  completed, cancelled and no_show, and the field is declared \<^verbatim>\<open>str\<close>: the validation
  accepts any string. An appointment with the status \<^verbatim>\<open>"banana"\<close> is accepted with
  that status, which is none of the four values.
\<close>

theorem validate_Appointment_status_unchecked:
  "validate_Appointment (appointment_body(str ''status'' \<mapsto> JStr (str ''banana''))) =
     Some \<lparr>doctor_id = str ''d1'', patient_id = str ''p1'', facility_id = None,
           start_time = str ''2024-01-01T09:00'', end_time = None, status = str ''banana'',
           reason = None, notes = None, tenant_id = None\<rparr> \<and>
   str ''banana'' \<notin> set status_values"
  by (simp add: validate_Appointment_def appointment_body_def required_str_def
      optional_str_def default_str_def status_values_def str_def)

end
